theory Spec2Isabelle
  imports Main
begin

section \<open>Python strings\<close>

text \<open>
  The script \<^verbatim>\<open>pull_oracle_n_upload_to_fabric/run_all.py\<close> builds SQL text with f-strings,
  \<^verbatim>\<open>str.upper\<close>, \<^verbatim>\<open>str.join\<close> and \<^verbatim>\<open>str.split\<close>. Strings are modelled as \<^typ>\<open>string\<close>
  (lists of 8-bit characters); identifiers are taken to be ASCII, so \<^verbatim>\<open>str.upper\<close> maps
  the letters a to z to A to Z and leaves every other character alone.
\<close>

definition upper_char :: "char \<Rightarrow> char" where
  "upper_char c =
     (let n = (of_char c :: nat) in if 97 \<le> n \<and> n \<le> 122 then char_of (n - 32) else c)"

definition upper :: "string \<Rightarrow> string" where
  "upper s = map upper_char s"

text \<open>\<^verbatim>\<open>str(n)\<close> for a Python int, as the f-string fields \<^verbatim>\<open>{precision}\<close> and \<^verbatim>\<open>{scale}\<close> print it.\<close>

fun str_nat :: "nat \<Rightarrow> string" where
  "str_nat n =
     (if n < 10 then [''0123456789'' ! n]
      else str_nat (n div 10) @ [''0123456789'' ! (n mod 10)])"

declare str_nat.simps [simp del]

definition str_int :: "int \<Rightarrow> string" where
  "str_int i = (if i < 0 then ''-'' @ str_nat (nat (- i)) else str_nat (nat i))"

text \<open>\<^verbatim>\<open>sep.join(xs)\<close>.\<close>

fun join :: "string \<Rightarrow> string list \<Rightarrow> string" where
  "join sep [] = []"
| "join sep [x] = x"
| "join sep (x # y # ys) = x @ sep @ join sep (y # ys)"

text \<open>
  \<^verbatim>\<open>s.split('.', 1)\<close> for a string that contains a dot: the text before the first dot and
  everything after it.
\<close>

definition split_first_dot :: "string \<Rightarrow> string \<times> string" where
  "split_first_dot s =
     (takeWhile (\<lambda>c. c \<noteq> CHR ''.'') s, tl (dropWhile (\<lambda>c. c \<noteq> CHR ''.'') s))"

section \<open>The query builder\<close>

text \<open>
  A row of \<^verbatim>\<open>ALL_TAB_COLUMNS\<close> as \<^verbatim>\<open>cursor.fetchall()\<close> returns it: the pair
  \<^verbatim>\<open>(COLUMN_NAME, DATA_TYPE)\<close>.
\<close>

type_synonym column_metadata = "(string \<times> string) list"

text \<open>
  One element of the list comprehension of \<^verbatim>\<open>generate_select_query\<close>:
  \<^verbatim>\<open>f'CAST("{c}" AS NUMBER({precision},{scale})) AS "{c}"' if dt == "NUMBER" else f'"{c}"'\<close>.
\<close>

definition select_clause :: "int \<Rightarrow> int \<Rightarrow> string \<times> string \<Rightarrow> string" where
  \<open>select_clause precision scale = (\<lambda>(c, dt).
     if dt = ''NUMBER''
     then ''CAST("'' @ c @ ''" AS NUMBER('' @ str_int precision @ '','' @ str_int scale @
          '')) AS "'' @ c @ ''"''
     else ''"'' @ c @ ''"'')\<close>

text \<open>
  \<^verbatim>\<open>generate_select_query\<close>: \<^verbatim>\<open>None\<close> for an empty metadata list (and, as the source
  checks a second time, for an empty clause list), else the text
  \<^verbatim>\<open>SELECT\n  <clauses joined by ",\n  ">\nFROM "<OWNER>"."<TABLE>"\<close>.
\<close>

definition generate_select_query ::
  "string \<Rightarrow> string \<Rightarrow> column_metadata \<Rightarrow> int \<Rightarrow> int \<Rightarrow> string option" where
  \<open>generate_select_query owner_name table_name_only column_metadata precision scale =
     (if column_metadata = [] then None
      else let select_clauses = map (select_clause precision scale) column_metadata in
        if select_clauses = [] then None
        else Some (''SELECT\<newline>  '' @ join '',\<newline>  '' select_clauses @
                   ''\<newline>FROM "'' @ upper owner_name @ ''"."'' @ upper table_name_only @ ''"''))\<close>

section \<open>Exceptions, console output and the outside world\<close>

text \<open>
  The exceptions the script tells apart: its handlers are \<^verbatim>\<open>except oracledb.DatabaseError\<close>,
  \<^verbatim>\<open>except pd.errors.DatabaseError\<close> and \<^verbatim>\<open>except Exception\<close>. Each carries the text that
  \<^verbatim>\<open>{e}\<close> prints. An exception that no handler of a function catches leaves the function:
  such a function returns \<open>Inl\<close> of it.
\<close>

datatype exn =
    OracleDatabaseError string
  | PandasDatabaseError string
  | OtherException string

text \<open>The result of \<^verbatim>\<open>pd.read_sql_query\<close>: the rows; \<^verbatim>\<open>len(df)\<close> is their number.\<close>

type_synonym dataframe = "string list list"

text \<open>
  What a run does to the outside, in order: console lines, process exit, and the calls to
  the database driver, the file system and the storage client. \<open>ToParquet path ok\<close> is the
  call \<^verbatim>\<open>df.to_parquet(path, ...)\<close>; \<open>ok\<close> tells whether it returned (the file is written)
  or raised.
\<close>

datatype event =
    Print string
  | Exit
  | InitOracleClient "string option"
  | Connect "string option" "string option" "string option"
  | SessionSchemaQuery
  | MetadataQuery string string
  | ReadSqlQuery string
  | MakeDirs string
  | ToParquet string bool
  | UploadCall string string string
  | DataLakeUpload string string string string
  | CloseConnection

text \<open>
  An entry of \<^verbatim>\<open>tables_to_process\<close>, read with \<^verbatim>\<open>table_config.get(...)\<close>: each of the four
  fields is a string or \<^verbatim>\<open>None\<close>. \<open>config_repr\<close> is the text \<^verbatim>\<open>{table_config}\<close> prints.
\<close>

record table_config =
  oracle_table_name :: "string option"
  local_file_name :: "string option"
  lakehouse_dest_folder_path :: "string option"
  lakehouse_dest_file_name :: "string option"
  config_repr :: string

text \<open>
  The YAML configuration as the script reads it, one field per key it looks up; \<^verbatim>\<open>None\<close> is
  a key that is absent (so that \<^verbatim>\<open>.get\<close> gives its default).
\<close>

record app_config =
  thick_mode_lib_dir :: "string option"
  base_local_output_directory :: "string option"
  tables_to_process :: "table_config list option"
  cast_number_to_precision :: "int option"
  cast_number_to_scale :: "int option"
  workspace_id :: "string option"
  lakehouse_id :: "string option"

text \<open>
  The outside world, as the answers it gives: the configuration file and the environment
  (after \<^verbatim>\<open>load_dotenv()\<close>), the Oracle client and connection, the catalog and the tables,
  the local file system, and the Azure libraries. The answers do not change during a run.
  An answer \<open>Inl e\<close> or \<open>Some e\<close> is the exception the call raises. \<open>yaml_config\<close> is what
  \<^verbatim>\<open>load_yaml_config\<close> meets: \<open>Inl line\<close> when it catches an exception (and prints
  \<open>line\<close>), \<open>Inr None\<close> for a document that is empty (a value that \<^verbatim>\<open>not APP_CONFIG\<close>
  rejects), \<open>Inr (Some cfg)\<close> for a configuration. \<open>session_schema\<close> answers
  \<^verbatim>\<open>SELECT SYS_CONTEXT('USERENV', 'CURRENT_SCHEMA') FROM DUAL\<close> with \<^verbatim>\<open>fetchone()\<close>: no row, or
  the schema name of the row; \<open>all_tab_columns\<close> answers the catalog query for the two bind
  values with \<^verbatim>\<open>fetchall()\<close>.
\<close>

record world =
  yaml_config :: "string + app_config option"
  environ :: "string \<Rightarrow> string option"
  init_oracle_client :: "string option \<Rightarrow> exn option"
  connect :: "string option \<Rightarrow> string option \<Rightarrow> string option \<Rightarrow> exn option"
  session_schema :: "exn + string option"
  all_tab_columns :: "string \<Rightarrow> string \<Rightarrow> exn + column_metadata"
  read_sql_query :: "string \<Rightarrow> exn + dataframe"
  path_exists :: "string \<Rightarrow> bool"
  makedirs :: "string \<Rightarrow> exn option"
  to_parquet :: "dataframe \<Rightarrow> string \<Rightarrow> exn option"
  azure_import :: "exn option"
  datalake_upload ::
    "string \<times> string \<times> string \<Rightarrow> string \<Rightarrow> string \<Rightarrow> string \<Rightarrow> string \<Rightarrow> exn option"

text \<open>Python truthiness of a value that is a string or \<^verbatim>\<open>None\<close>, and \<^verbatim>\<open>all([...])\<close>.\<close>

definition truthy :: "string option \<Rightarrow> bool" where
  "truthy v = (case v of None \<Rightarrow> False | Some s \<Rightarrow> s \<noteq> [])"

definition py_all :: "string option list \<Rightarrow> bool" where
  "py_all vs = list_all truthy vs"

text \<open>How an f-string prints such a value, and a value between single quotes.\<close>

definition py_str :: "string option \<Rightarrow> string" where
  "py_str v = (case v of None \<Rightarrow> ''None'' | Some s \<Rightarrow> s)"

definition sq :: "string \<Rightarrow> string" where
  "sq s = [CHR 0x27] @ s @ [CHR 0x27]"

text \<open>\<^verbatim>\<open>str(e)\<close> of an exception.\<close>

fun exn_text :: "exn \<Rightarrow> string" where
  "exn_text (OracleDatabaseError e) = e"
| "exn_text (PandasDatabaseError e) = e"
| "exn_text (OtherException e) = e"

text \<open>\<^verbatim>\<open>os.path.join(a, b)\<close> (posixpath).\<close>

definition path_join :: "string \<Rightarrow> string \<Rightarrow> string" where
  "path_join a b =
     (if b \<noteq> [] \<and> hd b = CHR ''/'' then b
      else if a = [] \<or> last a = CHR ''/'' then a @ b
      else a @ ''/'' @ b)"

section \<open>The schema introspector\<close>

definition msg_metadata_error :: "string \<Rightarrow> string \<Rightarrow> string \<Rightarrow> string" where
  "msg_metadata_error owner_name table_name_only e =
     ''Error fetching metadata for '' @ owner_name @ ''.'' @ table_name_only @ '': '' @ e"

text \<open>
  \<^verbatim>\<open>get_table_column_metadata\<close>: the catalog query, with both bind values uppercased. Only
  \<^verbatim>\<open>oracledb.DatabaseError\<close> is caught (printed, and \<^verbatim>\<open>[]\<close> returned); any other exception
  leaves the function.
\<close>

definition get_table_column_metadata ::
  "world \<Rightarrow> string \<Rightarrow> string \<Rightarrow> event list \<times> (exn + column_metadata)" where
  "get_table_column_metadata w owner_name table_name_only =
     (let call = MetadataQuery (upper owner_name) (upper table_name_only) in
      case all_tab_columns w (upper owner_name) (upper table_name_only) of
        Inr rows \<Rightarrow> ([call], Inr rows)
      | Inl x \<Rightarrow>
          (case x of
             OracleDatabaseError e \<Rightarrow>
               ([call, Print (msg_metadata_error owner_name table_name_only e)], Inr [])
           | _ \<Rightarrow> ([call], Inl x)))"

section \<open>Processing one table\<close>

definition msg_processing :: "string \<Rightarrow> string" where
  "msg_processing name = ''\<newline>Processing Oracle table: '' @ name @ ''...''"

definition msg_no_schema :: "string \<Rightarrow> string" where
  "msg_no_schema name =
     ''Could not determine current schema for table '' @ name @ ''. Skipping.''"

definition msg_schema_error :: "string \<Rightarrow> string \<Rightarrow> string" where
  "msg_schema_error name e =
     ''Error getting current schema for '' @ name @ '': '' @ e @ ''. Skipping.''"

definition msg_no_metadata :: "string \<Rightarrow> string \<Rightarrow> string" where
  "msg_no_metadata owner_name_std table_name_only_std =
     ''Could not retrieve metadata for '' @ owner_name_std @ ''.'' @ table_name_only_std @
     ''. Skipping.''"

definition msg_metadata_retrieved :: "string \<Rightarrow> string" where
  "msg_metadata_retrieved name = ''  Column metadata retrieved for '' @ name @ ''.''"

definition msg_no_query :: "string \<Rightarrow> string \<Rightarrow> string" where
  "msg_no_query owner_name_std table_name_only_std =
     ''Could not generate SELECT query for '' @ owner_name_std @ ''.'' @ table_name_only_std @
     ''. Skipping.''"

definition msg_executing :: "string \<Rightarrow> string" where
  "msg_executing name = ''  Executing query and fetching data for '' @ name @ ''...''"

definition msg_fetched :: "nat \<Rightarrow> string \<Rightarrow> string" where
  "msg_fetched n name =
     ''  Successfully fetched '' @ str_nat n @ '' rows for '' @ name @ ''.''"

definition msg_created_dir :: "string \<Rightarrow> string" where
  "msg_created_dir local_output_dir = ''  Created local output directory: '' @ local_output_dir"

definition msg_saved :: "string \<Rightarrow> string \<Rightarrow> string" where
  "msg_saved name local_parquet_file_path =
     ''  Successfully saved data for '' @ name @ '' to local file: '' @ local_parquet_file_path"

text \<open>The three handlers that close the \<^verbatim>\<open>try\<close> block of \<^verbatim>\<open>process_table\<close>.\<close>

fun msg_failed :: "string \<Rightarrow> exn \<Rightarrow> string" where
  "msg_failed name (OracleDatabaseError e) = ''  Oracle Error processing '' @ name @ '': '' @ e"
| "msg_failed name (PandasDatabaseError e) =
     ''  Pandas Database Error for '' @ name @ '': '' @ e"
| "msg_failed name (OtherException e) =
     ''  An unexpected error occurred while processing '' @ name @ '': '' @ e"

text \<open>
  The first block of \<^verbatim>\<open>process_table\<close>: owner and table name. An identifier with a dot is
  split at its first dot; for one without, the session schema is asked for. \<open>Inr None\<close> is the
  early \<^verbatim>\<open>return None\<close>; an exception other than \<^verbatim>\<open>oracledb.DatabaseError\<close> is not caught.
\<close>

definition process_table_owner ::
  "world \<Rightarrow> string \<Rightarrow> event list \<times> (exn + (string \<times> string) option)" where
  "process_table_owner w oracle_table_full_name =
     (if CHR ''.'' \<in> set oracle_table_full_name
      then ([], Inr (Some (split_first_dot oracle_table_full_name)))
      else
        (case session_schema w of
           Inl x \<Rightarrow>
             (case x of
                OracleDatabaseError e \<Rightarrow>
                  ([SessionSchemaQuery, Print (msg_schema_error oracle_table_full_name e)],
                   Inr None)
              | _ \<Rightarrow> ([SessionSchemaQuery], Inl x))
         | Inr None \<Rightarrow>
             ([SessionSchemaQuery, Print (msg_no_schema oracle_table_full_name)], Inr None)
         | Inr (Some fetched_owner) \<Rightarrow>
             ([SessionSchemaQuery], Inr (Some (fetched_owner, oracle_table_full_name)))))"

text \<open>
  The \<^verbatim>\<open>try\<close> block of \<^verbatim>\<open>process_table\<close>: run the query, create the directory when it
  is missing, write the Parquet file. Every exception is caught and printed, and \<^verbatim>\<open>None\<close>
  returned; on success the path of the file is returned.
\<close>

definition process_table_extract ::
  "world \<Rightarrow> string \<Rightarrow> string \<Rightarrow> string \<Rightarrow> string \<Rightarrow> event list \<times> string option" where
  "process_table_extract w select_query oracle_table_full_name local_output_dir
       local_file_name_cfg =
     (let ev1 = [Print (msg_executing oracle_table_full_name), ReadSqlQuery select_query] in
      case read_sql_query w select_query of
        Inl e \<Rightarrow> (ev1 @ [Print (msg_failed oracle_table_full_name e)], None)
      | Inr df \<Rightarrow>
          (let ev2 = ev1 @ [Print (msg_fetched (length df) oracle_table_full_name)];
               (ev3, raised) =
                 (if path_exists w local_output_dir then ([], None)
                  else
                    (case makedirs w local_output_dir of
                       Some e \<Rightarrow> ([MakeDirs local_output_dir], Some e)
                     | None \<Rightarrow>
                         ([MakeDirs local_output_dir, Print (msg_created_dir local_output_dir)],
                          None)))
           in case raised of
                Some e \<Rightarrow> (ev2 @ ev3 @ [Print (msg_failed oracle_table_full_name e)], None)
              | None \<Rightarrow>
                  (let local_parquet_file_path = path_join local_output_dir local_file_name_cfg
                   in case to_parquet w df local_parquet_file_path of
                        Some e \<Rightarrow>
                          (ev2 @ ev3 @ [ToParquet local_parquet_file_path False,
                                        Print (msg_failed oracle_table_full_name e)], None)
                      | None \<Rightarrow>
                          (ev2 @ ev3 @ [ToParquet local_parquet_file_path True,
                                        Print (msg_saved oracle_table_full_name
                                                 local_parquet_file_path)],
                           Some local_parquet_file_path))))"

text \<open>
  \<^verbatim>\<open>process_table\<close>. The result \<open>Inr (Some path)\<close> is the path of the local file,
  \<open>Inr None\<close> is \<^verbatim>\<open>return None\<close> (the failure result), \<open>Inl e\<close> an exception that
  no handler caught. \<^verbatim>\<open>if not select_query\<close> holds for \<^verbatim>\<open>None\<close> and for the empty string.
\<close>

definition process_table ::
  "world \<Rightarrow> string \<Rightarrow> string \<Rightarrow> string \<Rightarrow> int \<Rightarrow> int \<Rightarrow> event list \<times> (exn + string option)" where
  "process_table w oracle_table_full_name local_output_dir local_file_name_cfg cast_prec cast_scl =
     (let ev0 = [Print (msg_processing oracle_table_full_name)] in
      case process_table_owner w oracle_table_full_name of
        (ev1, Inl e) \<Rightarrow> (ev0 @ ev1, Inl e)
      | (ev1, Inr None) \<Rightarrow> (ev0 @ ev1, Inr None)
      | (ev1, Inr (Some (owner_name, table_name_only))) \<Rightarrow>
          (let owner_name_std = upper owner_name;
               table_name_only_std = upper table_name_only
           in case get_table_column_metadata w owner_name_std table_name_only_std of
                (ev2, Inl e) \<Rightarrow> (ev0 @ ev1 @ ev2, Inl e)
              | (ev2, Inr column_metadata) \<Rightarrow>
                  if column_metadata = []
                  then (ev0 @ ev1 @ ev2 @
                          [Print (msg_no_metadata owner_name_std table_name_only_std)], Inr None)
                  else
                    (let ev3 = ev0 @ ev1 @ ev2 @
                           [Print (msg_metadata_retrieved oracle_table_full_name)];
                         select_query =
                           generate_select_query owner_name_std table_name_only_std
                             column_metadata cast_prec cast_scl
                     in if \<not> truthy select_query
                        then (ev3 @ [Print (msg_no_query owner_name_std table_name_only_std)],
                              Inr None)
                        else
                          (case process_table_extract w (py_str select_query)
                                  oracle_table_full_name local_output_dir local_file_name_cfg of
                             (ev4, r) \<Rightarrow> (ev3 @ ev4, Inr r)))))"

section \<open>Uploading a file\<close>

definition msg_upload_ok :: "string \<Rightarrow> string \<Rightarrow> string" where
  "msg_upload_ok dest_file_name data_path =
     ''File '' @ sq dest_file_name @ '' uploaded successfully to '' @ sq data_path"

definition msg_upload_error :: "string \<Rightarrow> string \<Rightarrow> string" where
  "msg_upload_error local_file_path e =
     ''  ERROR uploading file '' @ sq local_file_path @ '' to Lakehouse: '' @ e"

definition msg_upload_path :: "string \<Rightarrow> string \<Rightarrow> string" where
  "msg_upload_path full_dest_folder_path dest_file_name =
     ''  Attempted Lakehouse path: '' @ full_dest_folder_path @ ''/'' @ dest_file_name"

text \<open>
  \<^verbatim>\<open>upload_file_to_datalake\<close>. \<open>UploadCall\<close> marks the call itself. The two imports stand
  before the \<^verbatim>\<open>try\<close>, so an exception of theirs leaves the function; every exception of
  the storage client is caught and printed. The arguments are the values \<^verbatim>\<open>main\<close> passes,
  each a string or \<^verbatim>\<open>None\<close>.
\<close>

definition upload_file_to_datalake ::
  "world \<Rightarrow> string option \<Rightarrow> string option \<Rightarrow> string option \<Rightarrow> string option \<Rightarrow>
   string option \<Rightarrow> string \<Rightarrow> string option \<Rightarrow> string option \<Rightarrow> event list \<times> exn option" where
  "upload_file_to_datalake w tenant_id client_id client_secret workspace_id' lakehouse_id'
       local_file_path dest_folder_path dest_file_name =
     (let call = UploadCall local_file_path (py_str dest_folder_path) (py_str dest_file_name) in
      case azure_import w of
        Some e \<Rightarrow> ([call], Some e)
      | None \<Rightarrow>
          (let full_dest_folder_path = ''Files/'' @ py_str dest_folder_path;
               data_path = py_str lakehouse_id' @ ''/'' @ full_dest_folder_path;
               ev = [call, DataLakeUpload (py_str workspace_id') data_path (py_str dest_file_name)
                             local_file_path]
           in case datalake_upload w (py_str tenant_id, py_str client_id, py_str client_secret)
                     (py_str workspace_id') data_path (py_str dest_file_name) local_file_path of
                None \<Rightarrow> (ev @ [Print (msg_upload_ok (py_str dest_file_name) data_path)], None)
              | Some e \<Rightarrow>
                  (ev @ [Print (msg_upload_error local_file_path (exn_text e)),
                         Print (msg_upload_path full_dest_folder_path (py_str dest_file_name))],
                   None)))"

section \<open>The batch\<close>

text \<open>
  The module-level names of the script. They are set once while the module loads and only
  read afterwards.
\<close>

record globals =
  DB_USER :: "string option"
  DB_PASSWORD :: "string option"
  DB_DSN :: "string option"
  FABRIC_TENANT_ID :: "string option"
  FABRIC_CLIENT_ID :: "string option"
  FABRIC_CLIENT_SECRET :: "string option"
  ORACLE_CLIENT_LIB_TO_USE :: "string option"
  BASE_LOCAL_OUTPUT_DIR :: string
  TABLES_CONFIG_LIST :: "table_config list"
  CAST_PRECISION :: int
  CAST_SCALE :: int
  FABRIC_WORKSPACE_ID :: "string option"
  FABRIC_LAKEHOUSE_ID :: "string option"

text \<open>\<^verbatim>\<open>FABRIC_CONFIG_COMPLETE = all([...])\<close> over the five destination fields.\<close>

definition FABRIC_CONFIG_COMPLETE :: "globals \<Rightarrow> bool" where
  "FABRIC_CONFIG_COMPLETE g =
     py_all [FABRIC_TENANT_ID g, FABRIC_CLIENT_ID g, FABRIC_CLIENT_SECRET g,
             FABRIC_WORKSPACE_ID g, FABRIC_LAKEHOUSE_ID g]"

definition msg_connected :: "string \<Rightarrow> string \<Rightarrow> string" where
  "msg_connected user dsn =
     ''Successfully connected to Oracle as user '' @ sq user @ '' with DSN '' @ sq dsn @ ''.''"

definition msg_connect_error :: "string \<Rightarrow> string" where
  "msg_connect_error e = ''Error connecting to Oracle: '' @ e"

text \<open>\<^verbatim>\<open>get_oracle_connection\<close>: \<open>Inr True\<close> is a connection, \<open>Inr False\<close> is \<^verbatim>\<open>None\<close>.\<close>

definition get_oracle_connection ::
  "world \<Rightarrow> string option \<Rightarrow> string option \<Rightarrow> string option \<Rightarrow> event list \<times> (exn + bool)" where
  "get_oracle_connection w user password dsn =
     (case connect w user password dsn of
        None \<Rightarrow>
          ([Connect user password dsn, Print (msg_connected (py_str user) (py_str dsn))],
           Inr True)
      | Some x \<Rightarrow>
          (case x of
             OracleDatabaseError e \<Rightarrow>
               ([Connect user password dsn, Print (msg_connect_error e)], Inr False)
           | _ \<Rightarrow> ([Connect user password dsn], Inl x)))"

definition msg_start :: string where
  "msg_start = ''--- Starting Oracle to Parquet Script with Lakehouse Upload ---''"

definition msg_no_tables :: string where
  "msg_no_tables = ''No tables to process. Check 'tables_to_process' in config.json.''"

definition msg_base_dir :: "string \<Rightarrow> string" where
  "msg_base_dir d = ''Base local output directory: '' @ d"

definition msg_casting :: "int \<Rightarrow> int \<Rightarrow> string" where
  "msg_casting p s =
     ''Casting NUMBER types to: NUMBER('' @ str_int p @ '','' @ str_int s @ '')''"

definition msg_skip_config :: "table_config \<Rightarrow> string" where
  "msg_skip_config tc =
     ''WARNING: Skipping table configuration due to missing fields: '' @ config_repr tc"

definition msg_attempt_upload :: "string \<Rightarrow> string \<Rightarrow> string \<Rightarrow> string" where
  "msg_attempt_upload file_name lakehouse_folder lakehouse_file =
     ''  Attempting to upload '' @ sq file_name @ '' to Lakehouse folder '' @
     sq lakehouse_folder @ '' as '' @ sq lakehouse_file @ ''...''"

definition msg_skip_upload_incomplete :: "string \<Rightarrow> string" where
  "msg_skip_upload_incomplete file_name =
     ''  Skipping upload for '' @ sq file_name @ '' due to incomplete Fabric configurations.''"

definition msg_skip_upload_no_file :: "string \<Rightarrow> string" where
  "msg_skip_upload_no_file table_name =
     ''  Skipping upload for '' @ sq table_name @ '' as local Parquet file was not created.''"

definition msg_closing :: string where
  "msg_closing = ''\<newline>Closing Oracle connection.''"

definition msg_no_connection :: string where
  "msg_no_connection = ''Could not establish Oracle connection. Exiting.''"

definition msg_finished :: string where
  "msg_finished = ''\<newline>--- Script Finished ---''"

text \<open>
  The body of the \<^verbatim>\<open>for table_config in TABLES_CONFIG_LIST\<close> loop of \<^verbatim>\<open>main\<close>. The result
  \<open>Some e\<close> is an exception that leaves the loop; \<open>None\<close> is the end of the body (or its
  \<^verbatim>\<open>continue\<close>), after which the loop takes the next table.
\<close>

definition main_table :: "world \<Rightarrow> globals \<Rightarrow> table_config \<Rightarrow> event list \<times> exn option" where
  "main_table w g tc =
     (let lakehouse_folder = lakehouse_dest_folder_path tc;
          lakehouse_file = lakehouse_dest_file_name tc
      in if \<not> py_all [oracle_table_name tc, local_file_name tc, lakehouse_folder, lakehouse_file]
         then ([Print (msg_skip_config tc)], None)
         else
           (case process_table w (py_str (oracle_table_name tc)) (BASE_LOCAL_OUTPUT_DIR g)
                   (py_str (local_file_name tc)) (CAST_PRECISION g) (CAST_SCALE g) of
              (ev1, Inl e) \<Rightarrow> (ev1, Some e)
            | (ev1, Inr local_parquet_path) \<Rightarrow>
                if truthy local_parquet_path \<and> FABRIC_CONFIG_COMPLETE g
                then
                  (case upload_file_to_datalake w (FABRIC_TENANT_ID g) (FABRIC_CLIENT_ID g)
                          (FABRIC_CLIENT_SECRET g) (FABRIC_WORKSPACE_ID g) (FABRIC_LAKEHOUSE_ID g)
                          (py_str local_parquet_path) lakehouse_folder lakehouse_file of
                     (ev2, r) \<Rightarrow>
                       (ev1 @ [Print (msg_attempt_upload (py_str (local_file_name tc))
                                        (py_str lakehouse_folder) (py_str lakehouse_file))] @ ev2,
                        r))
                else if truthy local_parquet_path \<and> \<not> FABRIC_CONFIG_COMPLETE g
                then (ev1 @ [Print (msg_skip_upload_incomplete (py_str (local_file_name tc)))],
                      None)
                else (ev1 @ [Print (msg_skip_upload_no_file (py_str (oracle_table_name tc)))],
                      None)))"

text \<open>The loop itself: the tables in configuration order, until an exception leaves it.\<close>

fun main_loop :: "world \<Rightarrow> globals \<Rightarrow> table_config list \<Rightarrow> event list \<times> exn option" where
  "main_loop w g [] = ([], None)"
| "main_loop w g (tc # rest) =
     (case main_table w g tc of
        (ev, Some e) \<Rightarrow> (ev, Some e)
      | (ev, None) \<Rightarrow> (case main_loop w g rest of (ev', r) \<Rightarrow> (ev @ ev', r)))"

text \<open>
  \<^verbatim>\<open>main\<close>. The \<^verbatim>\<open>finally\<close> clause closes the connection whether or not the loop raised;
  an exception then goes on to the caller and the last line is not printed.
\<close>

definition main :: "world \<Rightarrow> globals \<Rightarrow> event list \<times> exn option" where
  "main w g =
     (case get_oracle_connection w (DB_USER g) (DB_PASSWORD g) (DB_DSN g) of
        (ev, Inl e) \<Rightarrow> (Print msg_start # ev, Some e)
      | (ev, Inr conn) \<Rightarrow>
          if conn
          then
            (case (if TABLES_CONFIG_LIST g = [] then ([Print msg_no_tables], None)
                   else (case main_loop w g (TABLES_CONFIG_LIST g) of
                           (ev', r) \<Rightarrow>
                             ([Print (msg_base_dir (BASE_LOCAL_OUTPUT_DIR g)),
                               Print (msg_casting (CAST_PRECISION g) (CAST_SCALE g))] @ ev', r))) of
               (ev2, Some e) \<Rightarrow>
                 (Print msg_start # ev @ ev2 @ [Print msg_closing, CloseConnection], Some e)
             | (ev2, None) \<Rightarrow>
                 (Print msg_start # ev @ ev2 @
                    [Print msg_closing, CloseConnection, Print msg_finished], None))
          else (Print msg_start # ev @ [Print msg_no_connection, Print msg_finished], None))"

section \<open>Loading the module\<close>

definition msg_config_loaded :: string where
  "msg_config_loaded = ''Configuration successfully loaded from 'config.yaml'.''"

definition msg_exit_config :: string where
  "msg_exit_config = ''Exiting due to missing or invalid YAML configuration.''"

definition msg_init_from :: "string \<Rightarrow> string" where
  "msg_init_from lib_dir = ''Attempting to initialize Oracle Client from: '' @ lib_dir"

definition msg_init_system :: string where
  "msg_init_system =
     ''Attempting to initialize Oracle Client from system path (no specific lib_dir provided).''"

definition msg_init_ok :: string where
  "msg_init_ok = ''Successfully initialized Oracle Client in Thick Mode.''"

definition msg_init_failed :: "string \<Rightarrow> string" where
  "msg_init_failed e =
     ''CRITICAL ERROR: Failed to initialize Oracle Client for Thick Mode: '' @ e"

definition msg_no_credentials :: string where
  "msg_no_credentials =
     ''CRITICAL ERROR: Oracle credentials (ORACLE_DB_USER, ORACLE_DB_PASSWORD, ORACLE_DB_DSN) not found. Please set them in your .env file.''"

definition msg_warn_no_tables :: string where
  "msg_warn_no_tables =
     ''WARNING: No tables specified in config.json under 'processing_settings.tables_to_process'.''"

definition msg_warn_fabric :: string where
  "msg_warn_fabric =
     ''WARNING: Fabric Lakehouse connection details are incomplete (check .env for FABRIC_TENANT_ID, FABRIC_CLIENT_ID, FABRIC_CLIENT_SECRET and config.json for fabric_lakehouse_settings). Files will not be uploaded.''"

text \<open>
  The assignments at module level: the credentials from the environment, the settings from
  the configuration with the defaults of \<^verbatim>\<open>.get\<close>.
\<close>

definition load_globals :: "world \<Rightarrow> app_config \<Rightarrow> globals" where
  "load_globals w cfg =
     \<lparr> DB_USER = environ w ''ORACLE_DB_USER'',
       DB_PASSWORD = environ w ''ORACLE_DB_PASSWORD'',
       DB_DSN = environ w ''ORACLE_DB_DSN'',
       FABRIC_TENANT_ID = environ w ''FABRIC_TENANT_ID'',
       FABRIC_CLIENT_ID = environ w ''FABRIC_CLIENT_ID'',
       FABRIC_CLIENT_SECRET = environ w ''FABRIC_CLIENT_SECRET'',
       ORACLE_CLIENT_LIB_TO_USE =
         (if truthy (environ w ''ORACLE_CLIENT_LIB_DIR'') then environ w ''ORACLE_CLIENT_LIB_DIR''
          else thick_mode_lib_dir cfg),
       BASE_LOCAL_OUTPUT_DIR =
         (case base_local_output_directory cfg of None \<Rightarrow> ''parquet_output'' | Some d \<Rightarrow> d),
       TABLES_CONFIG_LIST = (case tables_to_process cfg of None \<Rightarrow> [] | Some ts \<Rightarrow> ts),
       CAST_PRECISION = (case cast_number_to_precision cfg of None \<Rightarrow> 22 | Some p \<Rightarrow> p),
       CAST_SCALE = (case cast_number_to_scale cfg of None \<Rightarrow> 0 | Some s \<Rightarrow> s),
       FABRIC_WORKSPACE_ID = workspace_id cfg,
       FABRIC_LAKEHOUSE_ID = lakehouse_id cfg \<rparr>"

text \<open>How a run of the script ends: by \<^verbatim>\<open>exit()\<close>, at its last line, or by an exception.\<close>

datatype outcome = Exited | Finished | Raised exn

text \<open>
  The script from its first line to its last: the configuration is loaded, the Oracle
  client initialised, the credentials validated, and \<^verbatim>\<open>main()\<close> called.
\<close>

definition run_all :: "world \<Rightarrow> event list \<times> outcome" where
  "run_all w =
     (case yaml_config w of
        Inl line \<Rightarrow> ([Print line, Print msg_exit_config, Exit], Exited)
      | Inr None \<Rightarrow> ([Print msg_config_loaded, Print msg_exit_config, Exit], Exited)
      | Inr (Some cfg) \<Rightarrow>
          (let g = load_globals w cfg;
               lib = ORACLE_CLIENT_LIB_TO_USE g;
               ev1 = Print msg_config_loaded #
                 (if truthy lib then [Print (msg_init_from (py_str lib)), InitOracleClient lib]
                  else [Print msg_init_system, InitOracleClient None])
           in case init_oracle_client w (if truthy lib then lib else None) of
                Some e \<Rightarrow> (ev1 @ [Print (msg_init_failed (exn_text e)), Exit], Exited)
              | None \<Rightarrow>
                  if \<not> py_all [DB_USER g, DB_PASSWORD g, DB_DSN g]
                  then (ev1 @ [Print msg_init_ok, Print msg_no_credentials, Exit], Exited)
                  else
                    (let ev2 = ev1 @ [Print msg_init_ok] @
                           (if TABLES_CONFIG_LIST g = [] then [Print msg_warn_no_tables] else []) @
                           (if \<not> FABRIC_CONFIG_COMPLETE g then [Print msg_warn_fabric] else [])
                     in case main w g of
                          (ev3, None) \<Rightarrow> (ev2 @ ev3, Finished)
                        | (ev3, Some e) \<Rightarrow> (ev2 @ ev3, Raised e))))"

section \<open>The query builder: results\<close>

lemma upper_char_idem: "upper_char (upper_char c) = upper_char c"
  by (auto simp add: upper_char_def Let_def)

lemma upper_idem: "upper (upper s) = upper s"
  by (simp add: upper_def upper_char_idem)

text \<open>
  Claim C8. For a non-empty column metadata list, whatever the owner, table, precision and
  scale, \<^const>\<open>generate_select_query\<close> returns a query string; it returns \<^verbatim>\<open>None\<close> only
  for the empty list.
\<close>

theorem generate_select_query_None_iff:
  "generate_select_query owner_name table_name_only column_metadata precision scale = None
     \<longleftrightarrow> column_metadata = []"
  by (simp add: generate_select_query_def Let_def)

theorem generate_select_query_None_iff_witness:
  "generate_select_query ''sales'' ''orders'' [(''ID'', ''VARCHAR2'')] 22 0 \<noteq> None
   \<and> generate_select_query ''sales'' ''orders'' [] 22 0 = None"
  using generate_select_query_None_iff [of "''sales''" "''orders''" "[(''ID'', ''VARCHAR2'')]" 22 0]
    generate_select_query_None_iff [of "''sales''" "''orders''" "[]" 22 0]
  by simp

lemma str_int_22: "str_int 22 = ''22''"
  by code_simp

lemma str_int_0: "str_int 0 = ''0''"
  by code_simp

lemma upper_SALES: "upper ''SALES'' = ''SALES''"
  by code_simp

lemma upper_ORDERS: "upper ''ORDERS'' = ''ORDERS''"
  by code_simp

text \<open>
  Claim C1. For a non-empty column metadata list the query is \<^verbatim>\<open>SELECT\<close>, a list of select
  clauses joined by commas, and the \<^verbatim>\<open>FROM\<close> part; the list has one clause per column of
  the metadata, in the order of the metadata, and the clause at position \<open>i\<close> is the
  reference to column \<open>i\<close> (the quoted name, or the cast of the quoted name under that name):
  no column is added, dropped, duplicated or moved.
\<close>

theorem generate_select_query_columns:
  assumes "column_metadata \<noteq> []"
  shows \<open>\<exists>clauses.
     generate_select_query owner_name table_name_only column_metadata precision scale =
       Some (''SELECT\<newline>  '' @ join '',\<newline>  '' clauses @
             ''\<newline>FROM "'' @ upper owner_name @ ''"."'' @ upper table_name_only @ ''"'')
     \<and> length clauses = length column_metadata
     \<and> (\<forall>i < length column_metadata.
          clauses ! i = ''"'' @ fst (column_metadata ! i) @ ''"''
        \<or> clauses ! i = ''CAST("'' @ fst (column_metadata ! i) @ ''" AS NUMBER('' @
             str_int precision @ '','' @ str_int scale @ '')) AS "'' @
             fst (column_metadata ! i) @ ''"'')\<close>
proof (intro exI conjI)
  show \<open>generate_select_query owner_name table_name_only column_metadata precision scale =
       Some (''SELECT\<newline>  '' @
             join '',\<newline>  '' (map (select_clause precision scale) column_metadata) @
             ''\<newline>FROM "'' @ upper owner_name @ ''"."'' @ upper table_name_only @ ''"'')\<close>
    using assms by (simp add: generate_select_query_def Let_def)
  show "length (map (select_clause precision scale) column_metadata) = length column_metadata"
    by simp
  show \<open>\<forall>i < length column_metadata.
          map (select_clause precision scale) column_metadata ! i =
            ''"'' @ fst (column_metadata ! i) @ ''"''
        \<or> map (select_clause precision scale) column_metadata ! i =
            ''CAST("'' @ fst (column_metadata ! i) @ ''" AS NUMBER('' @
             str_int precision @ '','' @ str_int scale @ '')) AS "'' @
             fst (column_metadata ! i) @ ''"''\<close>
    by (simp add: select_clause_def split_beta)
qed

theorem generate_select_query_columns_witness:
  \<open>\<exists>clauses.
     generate_select_query ''sales'' ''orders''
         [(''ID'', ''VARCHAR2''), (''AMOUNT'', ''NUMBER'')] 22 0 =
       Some (''SELECT\<newline>  '' @ join '',\<newline>  '' clauses @
             ''\<newline>FROM "'' @ upper ''sales'' @ ''"."'' @ upper ''orders'' @ ''"'')
     \<and> length clauses = 2
     \<and> (clauses ! 0 = ''"ID"'' \<or> clauses ! 0 = ''CAST("ID" AS NUMBER(22,0)) AS "ID"'')
     \<and> (clauses ! 1 = ''"AMOUNT"''
        \<or> clauses ! 1 = ''CAST("AMOUNT" AS NUMBER(22,0)) AS "AMOUNT"'')\<close>
proof -
  have ne: "[(''ID'', ''VARCHAR2''), (''AMOUNT'', ''NUMBER'')] \<noteq> []"
    by simp
  from generate_select_query_columns [OF ne, of "''sales''" "''orders''" 22 0]
  obtain clauses where
    q: \<open>generate_select_query ''sales'' ''orders''
          [(''ID'', ''VARCHAR2''), (''AMOUNT'', ''NUMBER'')] 22 0 =
        Some (''SELECT\<newline>  '' @ join '',\<newline>  '' clauses @
              ''\<newline>FROM "'' @ upper ''sales'' @ ''"."'' @ upper ''orders'' @ ''"'')\<close>
    and len: "length clauses = 2"
    and each: \<open>\<forall>i<2.
        clauses ! i = ''"'' @ fst ([(''ID'', ''VARCHAR2''), (''AMOUNT'', ''NUMBER'')] ! i) @ ''"''
        \<or> clauses ! i =
            ''CAST("'' @ fst ([(''ID'', ''VARCHAR2''), (''AMOUNT'', ''NUMBER'')] ! i) @
             ''" AS NUMBER('' @ str_int 22 @ '','' @ str_int 0 @ '')) AS "'' @
             fst ([(''ID'', ''VARCHAR2''), (''AMOUNT'', ''NUMBER'')] ! i) @ ''"''\<close>
    by auto
  from each
  have \<open>clauses ! 0 = ''"ID"'' \<or> clauses ! 0 = ''CAST("ID" AS NUMBER(22,0)) AS "ID"''\<close>
    by (simp add: str_int_22 str_int_0 numeral_2_eq_2 All_less_Suc)
  moreover from each
  have \<open>clauses ! 1 = ''"AMOUNT"''
        \<or> clauses ! 1 = ''CAST("AMOUNT" AS NUMBER(22,0)) AS "AMOUNT"''\<close>
    by (simp add: str_int_22 str_int_0 numeral_2_eq_2 All_less_Suc)
  ultimately show ?thesis
    using q len by blast
qed

text \<open>
  Claim C2, as the spec words it, has the cast written with the keyword \<^verbatim>\<open>NUMERIC\<close>. The
  source writes \<^verbatim>\<open>NUMBER\<close>: the clause for the column \<^verbatim>\<open>AMOUNT\<close> of type \<^verbatim>\<open>NUMBER\<close> with
  precision 22 and scale 0 is not the text \<^verbatim>\<open>CAST("AMOUNT" AS NUMERIC(22,0)) AS "AMOUNT"\<close>.
\<close>

theorem select_clause_not_NUMERIC:
  \<open>select_clause 22 0 (''AMOUNT'', ''NUMBER'') \<noteq>
     ''CAST("AMOUNT" AS NUMERIC(22,0)) AS "AMOUNT"''\<close>
  by (simp add: select_clause_def str_int_22 str_int_0)

text \<open>
  Claim C2, amended. In the query for a metadata list, the clause of column \<open>i\<close> is
  \<^verbatim>\<open>CAST("col" AS NUMBER(precision,scale)) AS "col"\<close> when the declared type of the column is
  the string \<^verbatim>\<open>NUMBER\<close>, and the quoted name \<^verbatim>\<open>"col"\<close> for every other declared type.
\<close>

theorem select_clause_by_type:
  assumes "i < length column_metadata"
  shows \<open>\<exists>clauses.
     generate_select_query owner_name table_name_only column_metadata precision scale =
       Some (''SELECT\<newline>  '' @ join '',\<newline>  '' clauses @
             ''\<newline>FROM "'' @ upper owner_name @ ''"."'' @ upper table_name_only @ ''"'')
     \<and> length clauses = length column_metadata
     \<and> clauses ! i =
         (if snd (column_metadata ! i) = ''NUMBER''
          then ''CAST("'' @ fst (column_metadata ! i) @ ''" AS NUMBER('' @
               str_int precision @ '','' @ str_int scale @ '')) AS "'' @
               fst (column_metadata ! i) @ ''"''
          else ''"'' @ fst (column_metadata ! i) @ ''"'')\<close>
proof (intro exI conjI)
  from assms have "column_metadata \<noteq> []"
    by auto
  then show
    \<open>generate_select_query owner_name table_name_only column_metadata precision scale =
       Some (''SELECT\<newline>  '' @
             join '',\<newline>  '' (map (select_clause precision scale) column_metadata) @
             ''\<newline>FROM "'' @ upper owner_name @ ''"."'' @ upper table_name_only @ ''"'')\<close>
    by (simp add: generate_select_query_def Let_def)
  show "length (map (select_clause precision scale) column_metadata) = length column_metadata"
    by simp
  show \<open>map (select_clause precision scale) column_metadata ! i =
         (if snd (column_metadata ! i) = ''NUMBER''
          then ''CAST("'' @ fst (column_metadata ! i) @ ''" AS NUMBER('' @
               str_int precision @ '','' @ str_int scale @ '')) AS "'' @
               fst (column_metadata ! i) @ ''"''
          else ''"'' @ fst (column_metadata ! i) @ ''"'')\<close>
    using assms by (simp add: select_clause_def split_beta)
qed

theorem select_clause_by_type_witness:
  \<open>\<exists>clauses.
     generate_select_query ''sales'' ''orders''
         [(''ID'', ''FLOAT''), (''AMOUNT'', ''NUMBER'')] 22 0 =
       Some (''SELECT\<newline>  '' @ join '',\<newline>  '' clauses @
             ''\<newline>FROM "'' @ upper ''sales'' @ ''"."'' @ upper ''orders'' @ ''"'')
     \<and> length clauses = 2
     \<and> clauses ! 1 = ''CAST("AMOUNT" AS NUMBER(22,0)) AS "AMOUNT"''\<close>
proof -
  have lt: "1 < length [(''ID'', ''FLOAT''), (''AMOUNT'', ''NUMBER'')]"
    by simp
  from select_clause_by_type [OF lt, of "''sales''" "''orders''" 22 0]
  obtain clauses where
    q: \<open>generate_select_query ''sales'' ''orders''
          [(''ID'', ''FLOAT''), (''AMOUNT'', ''NUMBER'')] 22 0 =
        Some (''SELECT\<newline>  '' @ join '',\<newline>  '' clauses @
              ''\<newline>FROM "'' @ upper ''sales'' @ ''"."'' @ upper ''orders'' @ ''"'')\<close>
    and len: "length clauses = 2"
    and c1: \<open>clauses ! 1 = ''CAST("AMOUNT" AS NUMBER('' @ str_int 22 @ '','' @ str_int 0 @
               '')) AS "AMOUNT"''\<close>
    by auto
  from c1 have \<open>clauses ! 1 = ''CAST("AMOUNT" AS NUMBER(22,0)) AS "AMOUNT"''\<close>
    by (simp add: str_int_22 str_int_0)
  with q len show ?thesis
    by blast
qed

text \<open>
  Claim C3, as the spec words it, gives the query on one line, its parts separated by single
  blanks. The source puts a line break and two blanks after \<^verbatim>\<open>SELECT\<close> and after every
  comma, and a line break before \<^verbatim>\<open>FROM\<close>, so the one-line text is not what it returns.
\<close>

theorem sales_orders_query_not_one_line:
  \<open>generate_select_query ''SALES'' ''ORDERS''
       [(''ID'', ''VARCHAR2''), (''AMOUNT'', ''NUMBER''), (''STATUS'', ''VARCHAR2'')] 22 0
     \<noteq> Some ''SELECT "ID", CAST("AMOUNT" AS NUMBER(22,0)) AS "AMOUNT", "STATUS" FROM "SALES"."ORDERS"''\<close>
  by (simp add: generate_select_query_def select_clause_def)

text \<open>
  Claim C3, amended. For owner \<^verbatim>\<open>SALES\<close>, table \<^verbatim>\<open>ORDERS\<close>, the columns \<^verbatim>\<open>ID\<close> (not of type
  \<^verbatim>\<open>NUMBER\<close>), \<^verbatim>\<open>AMOUNT\<close> (of type \<^verbatim>\<open>NUMBER\<close>) and \<^verbatim>\<open>STATUS\<close> (not of type \<^verbatim>\<open>NUMBER\<close>),
  precision 22 and scale 0, \<^const>\<open>generate_select_query\<close> returns the same clauses and
  \<^verbatim>\<open>FROM\<close> part laid out over five lines.
\<close>

theorem sales_orders_query:
  assumes \<open>dt1 \<noteq> ''NUMBER''\<close> and \<open>dt3 \<noteq> ''NUMBER''\<close>
  shows \<open>generate_select_query ''SALES'' ''ORDERS''
       [(''ID'', dt1), (''AMOUNT'', ''NUMBER''), (''STATUS'', dt3)] 22 0
     = Some ''SELECT\<newline>  "ID",\<newline>  CAST("AMOUNT" AS NUMBER(22,0)) AS "AMOUNT",\<newline>  "STATUS"\<newline>FROM "SALES"."ORDERS"''\<close>
  using assms
  by (simp add: generate_select_query_def select_clause_def str_int_22 str_int_0
        upper_SALES upper_ORDERS)

theorem sales_orders_query_witness:
  \<open>generate_select_query ''SALES'' ''ORDERS''
       [(''ID'', ''VARCHAR2''), (''AMOUNT'', ''NUMBER''), (''STATUS'', ''DATE'')] 22 0
     = Some ''SELECT\<newline>  "ID",\<newline>  CAST("AMOUNT" AS NUMBER(22,0)) AS "AMOUNT",\<newline>  "STATUS"\<newline>FROM "SALES"."ORDERS"''\<close>
  using sales_orders_query [of "''VARCHAR2''" "''DATE''"]
  by simp

end
